theory Spec2Isabelle
  imports Main "HOL-Library.Word"
begin

section \<open>Run-time failures\<close>

text \<open>
  The two ways the modelled code can stop without returning: following a nil receiver
  pointer, and the panic of \<^verbatim>\<open>strconv.FormatInt\<close> on a base outside 2..36.
\<close>

datatype panic = nil_pointer_dereference | illegal_base

section \<open>strconv: integers to text\<close>

text \<open>
  \<^verbatim>\<open>strconv\<close> belongs to the Go standard library. \<^verbatim>\<open>FormatInt(i int64, base int)\<close>
  takes the magnitude of \<open>i\<close> as an unsigned 64-bit number (negating in 64-bit
  arithmetic, so the least value is its own magnitude), writes its digits from the least
  significant one backwards into a buffer, and puts a minus sign in front of a negative
  number. \<^verbatim>\<open>Itoa(i int)\<close> is \<^verbatim>\<open>FormatInt(int64(i), 10)\<close>; \<^verbatim>\<open>int\<close> is taken at its
  64-bit width.
\<close>

type_synonym int64 = "64 word"

definition digits :: string where
  "digits = ''0123456789abcdefghijklmnopqrstuvwxyz''"

function formatBits :: "nat \<Rightarrow> nat \<Rightarrow> string \<Rightarrow> string" where
  "formatBits u b a =
     (if b < 2 then a
      else if u < b then digits ! u # a
      else formatBits (u div b) b (digits ! (u mod b) # a))"
  by pat_completeness auto
termination
  by (relation "measure (\<lambda>(u, b, a). u)") auto

definition FormatInt :: "int64 \<Rightarrow> int \<Rightarrow> panic + string" where
  "FormatInt i base =
     (if base < 2 \<or> base > int (length digits) then Inl illegal_base
      else
        let neg = sint i < 0;
            u = (if neg then - i else i);
            s = formatBits (unat u) (nat base) []
        in Inr (if neg then CHR ''-'' # s else s))"

definition Itoa :: "int64 \<Rightarrow> panic + string" where
  "Itoa i = FormatInt i 10"

section \<open>The decimal form of an integer\<close>

text \<open>
  What the specification calls the decimal string form of \<open>n\<close>: the digits of \<open>\<bar>n\<bar>\<close>,
  most significant first, without leading zeros, after a minus sign when \<open>n\<close> is
  negative. \<open>decimal_value\<close> reads such a string back.
\<close>

definition digit_char :: "nat \<Rightarrow> char" where
  "digit_char d = ''0123456789'' ! d"

fun decimal_digits :: "nat \<Rightarrow> string" where
  "decimal_digits n =
     (if n < 10 then [digit_char n]
      else decimal_digits (n div 10) @ [digit_char (n mod 10)])"

definition decimal_string :: "int \<Rightarrow> string" where
  "decimal_string n =
     (if n < 0 then CHR ''-'' # decimal_digits (nat (- n)) else decimal_digits (nat n))"

definition digit_value :: "char \<Rightarrow> nat" where
  "digit_value c = of_char c - 48"

definition digits_value :: "string \<Rightarrow> nat" where
  "digits_value s = foldl (\<lambda>v c. 10 * v + digit_value c) 0 s"

definition decimal_value :: "string \<Rightarrow> int" where
  "decimal_value s =
     (case s of
        [] \<Rightarrow> 0
      | c # cs \<Rightarrow> if c = CHR ''-'' then - int (digits_value cs) else int (digits_value s))"

section \<open>Plain records\<close>

text \<open>
  Three of the structs of \<^verbatim>\<open>types.go\<close> that have no method and only strings, integers
  and booleans for fields.
\<close>

record Contact =
  UserID :: int64
  PhoneNumber :: string
  FirstName :: string
  LastName :: string

record KeyboardButton =
  Text :: string
  Contact :: bool
  Location :: bool

record InlineButton =
  Text :: string
  URL :: string
  Data :: string
  InlineQuery :: string

section \<open>Addressable entities\<close>

text \<open>
  \<^verbatim>\<open>ChatType\<close> is declared outside \<^verbatim>\<open>types.go\<close>; the methods compare it with string
  constants, so it is a string type. A Go string is a sequence of bytes, as \<open>string\<close> is.
\<close>

type_synonym ChatType = string

record User =
  ID :: int64
  FirstName :: string
  LastName :: string
  Username :: string

record Chat =
  ID :: int64
  Type :: ChatType
  Title :: string
  FirstName :: string
  LastName :: string
  Username :: string

text \<open>
  The methods have pointer receivers. A receiver is \<open>None\<close> for nil and \<open>Some\<close> of the
  value it points to otherwise. A call returns what the method returns, or the panic that
  stopped it, together with the receiver as the call leaves it.
\<close>

definition User_Destination :: "User option \<Rightarrow> (panic + string) \<times> User option" where
  "User_Destination u =
     (case u of
        None \<Rightarrow> (Inl nil_pointer_dereference, u)
      | Some user \<Rightarrow> (Itoa (User.ID user), u))"

definition Chat_Destination :: "Chat option \<Rightarrow> (panic + string) \<times> Chat option" where
  "Chat_Destination c =
     (case c of
        None \<Rightarrow> (Inl nil_pointer_dereference, c)
      | Some chat \<Rightarrow>
          (let ret = Inr (''@'' @ Chat.Username chat);
               ret = (if Chat.Type chat \<noteq> ''channel'' then FormatInt (Chat.ID chat) 10 else ret)
           in (ret, c)))"

definition Chat_IsGroupChat :: "Chat option \<Rightarrow> (panic + bool) \<times> Chat option" where
  "Chat_IsGroupChat c =
     (case c of
        None \<Rightarrow> (Inl nil_pointer_dereference, c)
      | Some chat \<Rightarrow> (Inr (Chat.Type chat \<noteq> ''private''), c))"

section \<open>Updates, callbacks and their responses\<close>

text \<open>
  \<^verbatim>\<open>Message\<close> and \<^verbatim>\<open>Query\<close> are declared outside \<^verbatim>\<open>types.go\<close>: they are the type
  parameters \<open>'m\<close> and \<open>'q\<close>. A pointer field is an \<open>option\<close>.
\<close>

record 'm Callback =
  ID :: string
  Sender :: "User option"
  Message :: "'m option"
  MessageID :: string
  Data :: string

record ('m, 'q) Update =
  ID :: int64
  Payload :: "'m option"
  Callback :: "'m Callback option"
  Query :: "'q option"

record CallbackResponse =
  CallbackID :: string
  Text :: string
  ShowAlert :: bool
  URL :: string

text \<open>
  Modelled from the spec: the builder of a \<^verbatim>\<open>CallbackResponse\<close>, of which \<^verbatim>\<open>types.go\<close>
  has the struct only. Section 4.3: the input is a Callback plus caller-supplied display
  text, alert flag and redirect URL; the output has \<^verbatim>\<open>CallbackID\<close> set from the
  Callback's identifier and the remaining fields copied from the caller's input.
\<close>

definition build_CallbackResponse ::
    "'m Callback \<Rightarrow> string \<Rightarrow> bool \<Rightarrow> string \<Rightarrow> CallbackResponse" where
  "build_CallbackResponse c text alert url =
     \<lparr>CallbackID = Callback.ID c, Text = text, ShowAlert = alert, URL = url\<rparr>"

text \<open>
  Modelled from the spec: the dispatch of an \<^verbatim>\<open>Update\<close>, of which \<^verbatim>\<open>types.go\<close> has the
  struct only. Section 4.2: check Callback first, then Query, then fall back to treating
  Payload as a plain message.
\<close>

datatype branch = callback_branch | query_branch | message_branch

definition dispatch :: "('m, 'q) Update \<Rightarrow> branch" where
  "dispatch u =
     (if Callback u \<noteq> None then callback_branch
      else if Query u \<noteq> None then query_branch
      else message_branch)"

section \<open>encoding/json: the wire format\<close>

text \<open>
  The file has no encoder or decoder of its own: its structs carry \<^verbatim>\<open>json\<close> tags, and
  \<^verbatim>\<open>encoding/json\<close> of the Go standard library reads them. \<^verbatim>\<open>Marshal\<close> writes a struct
  as an object with one member per field, in the order of the fields, under the name in
  the tag, and leaves out a field tagged \<^verbatim>\<open>omitempty\<close> when it is false, 0 or the empty
  string. \<^verbatim>\<open>Unmarshal\<close> starts from the zero value of the struct and stores each member
  of the object in the field whose name matches the key, letter case aside; it skips a
  key that matches no field, leaves a field alone on \<^verbatim>\<open>null\<close>, and fails on a value of
  the wrong kind. A value of \<open>json\<close> is what a JSON text denotes: the numbers are the
  integers, which is all that the structs modelled here write.
\<close>

datatype json =
  JNull
  | JBool bool
  | JNumber int
  | JString string
  | JArray "json list"
  | JObject "(string \<times> json) list"


text \<open>
  A string is written coerced to valid UTF-8: the encoder walks the bytes, copies each
  well-formed encoding of a code point, and writes U+FFFD (the bytes EF BF BD once
  decoded) for every byte that starts none. \<open>rune_width\<close> is the width of the
  well-formed encoding at the head of a string, 0 when there is none, after the table of
  first bytes and accepted second bytes of \<^verbatim>\<open>unicode/utf8\<close>.
\<close>

definition in_range :: "char \<Rightarrow> nat \<Rightarrow> nat \<Rightarrow> bool" where
  "in_range b lo hi = (lo \<le> of_char b \<and> of_char b \<le> hi)"

fun rune_width :: "string \<Rightarrow> nat" where
  "rune_width [] = 0"
| "rune_width (b0 # bs) =
     (let x = (of_char b0 :: nat) in
      if x < 0x80 then 1
      else if 0xC2 \<le> x \<and> x \<le> 0xDF then
        (case bs of
           b1 # _ \<Rightarrow> if in_range b1 0x80 0xBF then 2 else 0
         | _ \<Rightarrow> 0)
      else if 0xE0 \<le> x \<and> x \<le> 0xEF then
        (case bs of
           b1 # b2 # _ \<Rightarrow>
             if in_range b1 (if x = 0xE0 then 0xA0 else 0x80) (if x = 0xED then 0x9F else 0xBF)
                \<and> in_range b2 0x80 0xBF
             then 3 else 0
         | _ \<Rightarrow> 0)
      else if 0xF0 \<le> x \<and> x \<le> 0xF4 then
        (case bs of
           b1 # b2 # b3 # _ \<Rightarrow>
             if in_range b1 (if x = 0xF0 then 0x90 else 0x80) (if x = 0xF4 then 0x8F else 0xBF)
                \<and> in_range b2 0x80 0xBF \<and> in_range b3 0x80 0xBF
             then 4 else 0
         | _ \<Rightarrow> 0)
      else 0)"

definition replacement_char :: string where
  "replacement_char = [CHR 0xEF, CHR 0xBF, CHR 0xBD]"

function coerce_utf8 :: "string \<Rightarrow> string" where
  "coerce_utf8 [] = []"
| "coerce_utf8 (b # bs) =
     (if rune_width (b # bs) = 0 then replacement_char @ coerce_utf8 bs
      else take (rune_width (b # bs)) (b # bs) @ coerce_utf8 (drop (rune_width (b # bs)) (b # bs)))"
  by pat_completeness auto
termination
  by (relation "measure length") auto































section \<open>FormatInt in base 10 writes the decimal form\<close>

declare formatBits.simps [simp del]
declare decimal_digits.simps [simp del]

lemma digit_cases: "d < 10 \<Longrightarrow> d \<in> {0, 1, 2, 3, 4, 5, 6, 7, 8, 9::nat}"
  by auto

lemma digits_nth: "d < 10 \<Longrightarrow> digits ! d = digit_char d"
  by (drule digit_cases) (auto simp: digits_def digit_char_def)

lemma digit_value_digit_char: "d < 10 \<Longrightarrow> digit_value (digit_char d) = d"
  by (drule digit_cases) (auto simp: digit_value_def digit_char_def)

lemma digit_char_not_minus: "d < 10 \<Longrightarrow> digit_char d \<noteq> CHR ''-''"
  by (drule digit_cases) (auto simp: digit_char_def)

text \<open>The buffer loop, started with \<open>a\<close> behind it, puts the decimal digits in front.\<close>

lemma formatBits_decimal: "formatBits u 10 a = decimal_digits u @ a"
proof (induction u arbitrary: a rule: decimal_digits.induct)
  case (1 n)
  show ?case
  proof (cases "n < 10")
    case True
    then show ?thesis
      by (simp add: formatBits.simps [of n] decimal_digits.simps [of n] digits_nth)
  next
    case False
    then have "formatBits n 10 a = formatBits (n div 10) 10 (digits ! (n mod 10) # a)"
      by (simp add: formatBits.simps [of n])
    also have "\<dots> = decimal_digits (n div 10) @ (digits ! (n mod 10) # a)"
      using 1 False by simp
    also have "\<dots> = decimal_digits n @ a"
      using False by (simp add: decimal_digits.simps [of n] digits_nth)
    finally show ?thesis .
  qed
qed

lemma sint_range64: "- (2 ^ 63) \<le> sint (i::int64) \<and> sint i < 2 ^ 63"
  using sint_ge [of i] sint_lt [of i] by simp

lemma unat_nonneg:
  assumes "\<not> sint (i::int64) < 0"
  shows "unat i = nat (sint i)"
proof -
  have "uint i = uint (word_of_int (sint i) :: int64)"
    by simp
  also have "\<dots> = sint i mod 2 ^ 64"
    by (simp only: uint_word_of_int_eq take_bit_eq_mod) simp
  finally have "uint i = sint i mod 2 ^ 64" .
  moreover have "sint i mod 2 ^ 64 = sint i"
    using assms sint_range64 [of i] by simp
  ultimately show ?thesis
    by (simp add: unat_eq_nat_uint)
qed

text \<open>
  Negation in 64-bit arithmetic gives the magnitude of every negative number, the least
  one included: \<open>- (- 2 ^ 63)\<close> wraps to the word \<open>2 ^ 63\<close>.
\<close>

lemma unat_neg:
  assumes "sint (i::int64) < 0"
  shows "unat (- i) = nat (- sint i)"
proof -
  have "- i = word_of_int (- sint i)"
    by simp
  then have "uint (- i) = (- sint i) mod 2 ^ 64"
    by (simp only: uint_word_of_int_eq take_bit_eq_mod) simp
  moreover have "(- sint i) mod 2 ^ 64 = - sint i"
    using assms sint_range64 [of i] by simp
  ultimately show ?thesis
    by (simp add: unat_eq_nat_uint)
qed

lemma FormatInt_decimal: "FormatInt i 10 = Inr (decimal_string (sint i))"
  by (simp add: FormatInt_def digits_def decimal_string_def formatBits_decimal
      unat_neg unat_nonneg Let_def)

lemma FormatInt_least: "FormatInt (- 9223372036854775808) 10 = Inr ''-9223372036854775808''"
  by (simp add: FormatInt_decimal decimal_string_def decimal_digits.simps digit_char_def)

text \<open>The decimal form determines the number: reading it back gives the number.\<close>

lemma digits_value_append: "digits_value (s @ [c]) = 10 * digits_value s + digit_value c"
  by (simp add: digits_value_def)

lemma digits_value_decimal_digits: "digits_value (decimal_digits n) = n"
proof (induction n rule: decimal_digits.induct)
  case (1 n)
  show ?case
  proof (cases "n < 10")
    case True
    then show ?thesis
      by (simp add: decimal_digits.simps [of n] digits_value_def digit_value_digit_char)
  next
    case False
    then have "digits_value (decimal_digits n) =
        10 * digits_value (decimal_digits (n div 10)) + digit_value (digit_char (n mod 10))"
      by (subst decimal_digits.simps) (simp add: digits_value_append)
    also have "\<dots> = 10 * (n div 10) + n mod 10"
      using 1 False by (simp add: digit_value_digit_char)
    finally show ?thesis
      by simp
  qed
qed

lemma hd_decimal_digits: "\<exists>d cs. d < 10 \<and> decimal_digits n = digit_char d # cs"
proof (induction n rule: decimal_digits.induct)
  case (1 n)
  show ?case
  proof (cases "n < 10")
    case True
    then show ?thesis
      by (auto simp: decimal_digits.simps [of n])
  next
    case False
    with 1 obtain d cs where "d < 10" "decimal_digits (n div 10) = digit_char d # cs"
      by blast
    with False have "decimal_digits n = digit_char d # (cs @ [digit_char (n mod 10)])"
      by (subst decimal_digits.simps) simp
    with \<open>d < 10\<close> show ?thesis
      by blast
  qed
qed

lemma decimal_value_decimal_string: "decimal_value (decimal_string n) = n"
proof (cases "n < 0")
  case True
  then show ?thesis
    by (simp add: decimal_value_def decimal_string_def digits_value_decimal_digits)
next
  case False
  obtain d cs where d: "d < 10" "decimal_digits (nat n) = digit_char d # cs"
    using hd_decimal_digits by blast
  have "digits_value (digit_char d # cs) = nat n"
    using digits_value_decimal_digits [of "nat n"] d by simp
  with False d show ?thesis
    by (simp add: decimal_value_def decimal_string_def digit_char_not_minus)
qed

lemma decimal_string_inj: "decimal_string m = decimal_string n \<Longrightarrow> m = n"
  by (metis decimal_value_decimal_string)

section \<open>Destination of a User\<close>

text \<open>
  C3: for every User with numeric identifier \<open>n\<close>, Destination returns the decimal string
  form of \<open>n\<close>. The call on a User never panics: its result is always a string.
\<close>

theorem User_Destination_decimal:
  "fst (User_Destination (Some u)) = Inr (decimal_string (sint (User.ID u)))"
  by (simp add: User_Destination_def Itoa_def FormatInt_decimal)

theorem User_Destination_decimal_witness:
  "fst (User_Destination (Some \<lparr>User.ID = 4096, FirstName = ''Ada'', LastName = [],
      Username = ''ada''\<rparr>)) = Inr ''4096''"
  using User_Destination_decimal [of "\<lparr>User.ID = 4096, FirstName = ''Ada'', LastName = [],
      Username = ''ada''\<rparr>"]
  by (simp add: decimal_string_def decimal_digits.simps digit_char_def)

section \<open>Destination of a Chat\<close>

text \<open>
  C1: for every Chat whose kind tag equals "channel", Destination returns "@" followed by
  the chat's username; for a channel with an empty username it returns exactly "@", as
  an ordinary result and not as a failure.
\<close>

theorem Chat_Destination_channel:
  "Chat.Type c = ''channel'' \<Longrightarrow>
     fst (Chat_Destination (Some c)) = Inr (''@'' @ Chat.Username c)
     \<and> (Chat.Username c = [] \<longrightarrow> fst (Chat_Destination (Some c)) = Inr ''@'')"
  by (simp add: Chat_Destination_def)

theorem Chat_Destination_channel_witness:
  "Chat.Type \<lparr>Chat.ID = 555, Type = ''channel'', Title = [], FirstName = [], LastName = [],
      Username = []\<rparr> = ''channel''
   \<and> Chat.Username \<lparr>Chat.ID = 555, Type = ''channel'', Title = [], FirstName = [],
      LastName = [], Username = []\<rparr> = []
   \<and> fst (Chat_Destination (Some \<lparr>Chat.ID = 555, Type = ''channel'', Title = [],
      FirstName = [], LastName = [], Username = []\<rparr>)) = Inr ''@''
   \<and> fst (Chat_Destination (Some \<lparr>Chat.ID = 555, Type = ''channel'', Title = [],
      FirstName = [], LastName = [], Username = ''news''\<rparr>)) = Inr ''@news''"
  using Chat_Destination_channel [of "\<lparr>Chat.ID = 555, Type = ''channel'', Title = [],
      FirstName = [], LastName = [], Username = []\<rparr>"]
    Chat_Destination_channel [of "\<lparr>Chat.ID = 555, Type = ''channel'', Title = [],
      FirstName = [], LastName = [], Username = ''news''\<rparr>"]
  by simp

text \<open>
  C2: for every Chat whose kind tag is not "channel" and whose numeric identifier is \<open>n\<close>,
  Destination returns the decimal string form of \<open>n\<close>, whatever the Username field holds.
\<close>

theorem Chat_Destination_other:
  "Chat.Type c \<noteq> ''channel'' \<Longrightarrow>
     fst (Chat_Destination (Some c)) = Inr (decimal_string (sint (Chat.ID c)))
     \<and> fst (Chat_Destination (Some (c\<lparr>Chat.Username := name\<rparr>))) =
         fst (Chat_Destination (Some c))"
  by (simp add: Chat_Destination_def FormatInt_decimal)

theorem Chat_Destination_other_witness:
  "Chat.Type \<lparr>Chat.ID = - 1001234, Type = ''supergroup'', Title = ''t'', FirstName = [],
      LastName = [], Username = ''news''\<rparr> \<noteq> ''channel''
   \<and> fst (Chat_Destination (Some \<lparr>Chat.ID = - 1001234, Type = ''supergroup'', Title = ''t'',
      FirstName = [], LastName = [], Username = ''news''\<rparr>)) = Inr ''-1001234''
   \<and> fst (Chat_Destination (Some \<lparr>Chat.ID = - 1001234, Type = ''supergroup'', Title = ''t'',
      FirstName = [], LastName = [], Username = []\<rparr>)) = Inr ''-1001234''"
  using Chat_Destination_other [of "\<lparr>Chat.ID = - 1001234, Type = ''supergroup'',
      Title = ''t'', FirstName = [], LastName = [], Username = ''news''\<rparr>" "[]"]
  by (simp add: decimal_string_def decimal_digits.simps digit_char_def)

text \<open>
  C9: the two methods test the kind tag against one string each and nothing else. For
  every kind string other than exactly "channel", the empty string and any other string
  outside private, group, supergroup and channel included, Destination returns the
  decimal string of the identifier; for every kind string other than exactly "private",
  such strings included, IsGroupChat returns true.
\<close>

theorem Chat_kind_outside_closed_set:
  "(Chat.Type c \<noteq> ''channel'' \<longrightarrow>
      fst (Chat_Destination (Some c)) = Inr (decimal_string (sint (Chat.ID c))))
   \<and> (Chat.Type c \<noteq> ''private'' \<longrightarrow> fst (Chat_IsGroupChat (Some c)) = Inr True)"
  by (simp add: Chat_Destination_def Chat_IsGroupChat_def FormatInt_decimal)

theorem Chat_kind_outside_closed_set_witness:
  "Chat.Type \<lparr>Chat.ID = 7, Type = [], Title = [], FirstName = [], LastName = [],
      Username = ''u''\<rparr> \<noteq> ''channel''
   \<and> Chat.Type \<lparr>Chat.ID = 7, Type = [], Title = [], FirstName = [], LastName = [],
      Username = ''u''\<rparr> \<noteq> ''private''
   \<and> fst (Chat_Destination (Some \<lparr>Chat.ID = 7, Type = [], Title = [], FirstName = [],
      LastName = [], Username = ''u''\<rparr>)) = Inr ''7''
   \<and> fst (Chat_IsGroupChat (Some \<lparr>Chat.ID = 7, Type = [], Title = [], FirstName = [],
      LastName = [], Username = ''u''\<rparr>)) = Inr True"
  using Chat_kind_outside_closed_set [of "\<lparr>Chat.ID = 7, Type = [], Title = [],
      FirstName = [], LastName = [], Username = ''u''\<rparr>"]
  by (simp add: decimal_string_def decimal_digits.simps digit_char_def)

section \<open>IsGroupChat\<close>

text \<open>
  C4: for every Chat, IsGroupChat returns false if and only if the kind tag equals
  "private", and returns true for every other kind.
\<close>

theorem Chat_IsGroupChat_private:
  "(fst (Chat_IsGroupChat (Some c)) = Inr False \<longleftrightarrow> Chat.Type c = ''private'')
   \<and> (Chat.Type c \<noteq> ''private'' \<longrightarrow> fst (Chat_IsGroupChat (Some c)) = Inr True)"
  by (simp add: Chat_IsGroupChat_def)

theorem Chat_IsGroupChat_private_witness:
  "fst (Chat_IsGroupChat (Some \<lparr>Chat.ID = 1, Type = ''private'', Title = [],
      FirstName = ''a'', LastName = ''b'', Username = []\<rparr>)) = Inr False
   \<and> Chat.Type \<lparr>Chat.ID = 2, Type = ''channel'', Title = ''t'', FirstName = [],
      LastName = [], Username = ''news''\<rparr> \<noteq> ''private''
   \<and> fst (Chat_IsGroupChat (Some \<lparr>Chat.ID = 2, Type = ''channel'', Title = ''t'',
      FirstName = [], LastName = [], Username = ''news''\<rparr>)) = Inr True"
  using Chat_IsGroupChat_private [of "\<lparr>Chat.ID = 1, Type = ''private'', Title = [],
      FirstName = ''a'', LastName = ''b'', Username = []\<rparr>"]
    Chat_IsGroupChat_private [of "\<lparr>Chat.ID = 2, Type = ''channel'', Title = ''t'',
      FirstName = [], LastName = [], Username = ''news''\<rparr>"]
  by simp

section \<open>The methods only read\<close>

text \<open>
  C10: a call of Destination on a User, and of Destination or IsGroupChat on a Chat,
  leaves the receiver as it was, every field of it, and a second call on the receiver
  the first one left returns what the first returned.
\<close>

theorem methods_leave_receiver:
  "snd (User_Destination p) = p
   \<and> snd (Chat_Destination q) = q
   \<and> snd (Chat_IsGroupChat q) = q
   \<and> fst (User_Destination (snd (User_Destination p))) = fst (User_Destination p)
   \<and> fst (Chat_Destination (snd (Chat_Destination q))) = fst (Chat_Destination q)
   \<and> fst (Chat_IsGroupChat (snd (Chat_IsGroupChat q))) = fst (Chat_IsGroupChat q)
   \<and> fst (Chat_Destination (snd (Chat_IsGroupChat q))) = fst (Chat_Destination q)
   \<and> fst (Chat_IsGroupChat (snd (Chat_Destination q))) = fst (Chat_IsGroupChat q)"
proof -
  have u: "snd (User_Destination p) = p"
    by (simp add: User_Destination_def split: option.split)
  have d: "snd (Chat_Destination q) = q"
    by (simp add: Chat_Destination_def Let_def split: option.split)
  have g: "snd (Chat_IsGroupChat q) = q"
    by (simp add: Chat_IsGroupChat_def split: option.split)
  show ?thesis
    by (simp add: u d g)
qed

section \<open>Updates\<close>

text \<open>
  C8: an Update whose Payload, Callback and Query are all empty is a value of the type
  like any other: for every identifier there is one, and reading its three fields gives
  the empty pointer each time. The type carries no invariant and the file declares no
  constructor or validator that could reject it.
\<close>

theorem Update_all_empty:
  "\<exists>u :: ('m, 'q) Update.
     Update.ID u = n \<and> Payload u = None \<and> Callback u = None \<and> Query u = None"
  by (rule exI [of _ "\<lparr>Update.ID = n, Payload = None, Callback = None, Query = None\<rparr>"])
    simp

text \<open>
  C6: dispatch follows the precedence Callback, then Query, then Payload. An Update with
  Callback populated dispatches as a callback, also when Payload is populated; without a
  Callback, one with Query populated dispatches as a query; one with only Payload
  populated dispatches as a plain message.
\<close>

theorem dispatch_precedence:
  "(Callback u \<noteq> None \<longrightarrow> dispatch u = callback_branch)
   \<and> (Callback u = None \<and> Query u \<noteq> None \<longrightarrow> dispatch u = query_branch)
   \<and> (Callback u = None \<and> Query u = None \<and> Payload u \<noteq> None \<longrightarrow>
        dispatch u = message_branch)"
  by (simp add: dispatch_def)

theorem dispatch_precedence_witness:
  "dispatch \<lparr>Update.ID = 42, Payload = Some ''hello'',
      Callback = Some \<lparr>Callback.ID = ''abc123'', Sender = None, Message = None,
        MessageID = [], Data = ''d''\<rparr>,
      Query = (None :: string option)\<rparr> = callback_branch
   \<and> dispatch \<lparr>Update.ID = 43, Payload = Some ''hello'', Callback = None,
      Query = Some ''q''\<rparr> = query_branch
   \<and> dispatch \<lparr>Update.ID = 44, Payload = Some ''hello'', Callback = None,
      Query = (None :: string option)\<rparr> = message_branch"
  using dispatch_precedence [of "\<lparr>Update.ID = 42, Payload = Some ''hello'',
      Callback = Some \<lparr>Callback.ID = ''abc123'', Sender = None, Message = None,
        MessageID = [], Data = ''d''\<rparr>,
      Query = (None :: string option)\<rparr>"]
    dispatch_precedence [of "\<lparr>Update.ID = 43, Payload = Some ''hello'', Callback = None,
      Query = Some ''q''\<rparr>"]
    dispatch_precedence [of "\<lparr>Update.ID = 44, Payload = Some ''hello'', Callback = None,
      Query = (None :: string option)\<rparr>"]
  by simp

section \<open>Answering a callback\<close>

text \<open>
  C5, as stated, fails in its last part: the CallbackID field can be set by the caller.
  It is an exported field of the struct, and a caller who assigns it on a built response
  has a response that answers another callback.
\<close>

theorem CallbackID_assigned_counterexample:
  "CallbackID ((build_CallbackResponse \<lparr>Callback.ID = ''abc123'', Sender = None,
      Message = (None :: string option), MessageID = [], Data = ''d''\<rparr>
      ''done'' True ''https://example.org'')\<lparr>CallbackID := ''other''\<rparr>)
    \<noteq> Callback.ID \<lparr>Callback.ID = ''abc123'', Sender = None,
      Message = (None :: string option), MessageID = [], Data = ''d''\<rparr>"
  by (simp add: build_CallbackResponse_def)

text \<open>
  C5, amended: for every Callback \<open>c\<close> and every text, alert flag and URL the caller
  supplies, the built CallbackResponse has CallbackID equal to the identifier of \<open>c\<close>,
  whatever the other arguments are, and the caller's arguments in the other three fields;
  the builder takes no identifier. The field stays an assignable field of the struct: a
  response whose CallbackID the caller assigns afterwards carries the assigned value.
\<close>

theorem build_CallbackResponse_fields:
  "CallbackID (build_CallbackResponse c text alert url) = Callback.ID c
   \<and> Text (build_CallbackResponse c text alert url) = text
   \<and> ShowAlert (build_CallbackResponse c text alert url) = alert
   \<and> URL (build_CallbackResponse c text alert url) = url
   \<and> CallbackID (build_CallbackResponse c text' alert' url') =
       CallbackID (build_CallbackResponse c text alert url)
   \<and> CallbackID ((build_CallbackResponse c text alert url)\<lparr>CallbackID := x\<rparr>) = x"
  by (simp add: build_CallbackResponse_def)

theorem build_CallbackResponse_fields_witness:
  "CallbackID (build_CallbackResponse \<lparr>Callback.ID = ''abc123'', Sender = None,
      Message = (None :: string option), MessageID = [], Data = ''d''\<rparr>
      ''done'' True ''https://example.org'') = ''abc123''"
  using build_CallbackResponse_fields [of "\<lparr>Callback.ID = ''abc123'', Sender = None,
      Message = (None :: string option), MessageID = [], Data = ''d''\<rparr>"
      "''done''" True "''https://example.org''"]
  by simp

section \<open>What comes back from the wire\<close>





lemma coerce_utf8_empty_iff: "coerce_utf8 s = [] \<longleftrightarrow> s = []"
  by (cases s) (simp_all add: replacement_char_def)

text \<open>A string of ASCII bytes is valid UTF-8.\<close>

lemma coerce_utf8_ascii: "\<forall>c \<in> set s. of_char c < (128::nat) \<Longrightarrow> coerce_utf8 s = s"
  by (induction s) (simp_all add: Let_def)







section \<open>Round trip through the wire format\<close>




end
